theory Spec2Isabelle
  imports Complex_Main "HOL-Library.Sublist"
begin

section \<open>The trainer of src/trainer.py\<close>

text \<open>
  The class \<open>Trainer\<close> drives a generator through epochs of training and validation,
  keeps the best validation loss, renders a sample per epoch and pickles its state.
  The generator, the loss function, the optimizer, the two loaders, the image renderer
  and wandb are libraries used by the class; they are parameters here (the record
  \<open>env\<close>). Losses are Python floats, modelled as reals: rounding and NaN are outside
  this model. Every \<open>raise\<close> is a value \<open>Inl (error, state at the raise)\<close>.
\<close>

subsection \<open>Errors, sink messages, executed steps\<close>

datatype py_error =
    ZeroDivisionError
  | KeyError string
  | FileNotFoundError string
  | SinkError

text \<open>The four calls the class makes to wandb.\<close>

datatype 'i sink_msg =
    Log_train_loss real
  | Log_valid_loss real
  | Log_pred_image 'i
  | Config_best_loss real

text \<open>
  The steps the trainer executes, in order, are recorded in the field \<open>trace\<close>:
  loader reads, optimizer calls, rendering, the append of the sample, the pickle dump,
  wandb calls and what \<open>print\<close> writes (the numbers, not their formatting).
\<close>

datatype 'i event =
    Get_train
  | Get_valid
  | Zero_grad
  | Backward
  | Optim_step
  | Render
  | Append_image
  | Pickle_dump string
  | Sink "'i sink_msg"
  | Print_epoch int int
  | Print_label string
  | Print_train_loss real
  | Print_valid_loss real

subsection \<open>The libraries, as parameters\<close>

text \<open>
  \<open>'x\<close> tensors, \<open>'p\<close> the values of a module's parameters, \<open>'o\<close> the optimizer with the
  gradient buffers it manages, \<open>'l\<close> a loader, \<open>'w\<close> wandb's state, \<open>'i\<close> images.
  \<open>loader_get None\<close> is \<open>get()\<close>, \<open>loader_get (Some n)\<close> is \<open>get(batch_size=n)\<close>;
  \<open>wandb_call\<close> returns \<open>None\<close> when wandb raises.
\<close>

record ('x, 'p, 'o, 'l, 'w, 'i) env =
  generator_call :: "bool \<Rightarrow> 'p \<Rightarrow> 'x \<Rightarrow> 'x \<Rightarrow> 'x"
  mse_criterion :: "'x \<Rightarrow> 'x \<Rightarrow> real"
  to_float32 :: "'x \<Rightarrow> 'x"
  loader_len :: "'l \<Rightarrow> nat"
  loader_get :: "nat option \<Rightarrow> 'l \<Rightarrow> ('x \<times> 'x \<times> 'x) \<times> 'l"
  adam :: "real \<Rightarrow> 'p \<Rightarrow> 'o"
  optim_zero_grad :: "'o \<Rightarrow> 'o"
  loss_backward :: "'o \<Rightarrow> bool \<Rightarrow> 'p \<Rightarrow> 'x \<times> 'x \<times> 'x \<Rightarrow> real \<Rightarrow> 'o"
  optim_step :: "'o \<Rightarrow> 'p \<Rightarrow> 'o \<times> 'p"
  make_image :: "'x \<Rightarrow> 'i"
  wandb_call :: "'w \<Rightarrow> 'i sink_msg \<Rightarrow> 'w option"

subsection \<open>The pickled dictionary\<close>

text \<open>
  The dictionary \<open>trainer_data\<close> that \<open>run\<close> dumps and \<open>load_trainer\<close> reads: nine keys,
  each present (\<open>Some\<close>) or absent (\<open>None\<close>). Pickling stores values, so the two state
  dictionaries are stored as the parameter values they refer to at the dump.
  The value under \<open>best_params\<close> may be Python's \<open>None\<close> (the inner option).
\<close>

record ('x, 'p, 'i) trainer_data =
  d_generator_params :: "'p option"
  d_best_loss :: "real option"
  d_best_params :: "'p option option"
  d_test_content_letters :: "'x option"
  d_test_style_letters :: "'x option"
  d_test_style_labels :: "'x option"
  d_test_images :: "'i list option"
  d_train_loss :: "real list option"
  d_valid_loss :: "real list option"

definition required_keys :: "string list" where
  "required_keys = [''generator_params'', ''best_loss'', ''best_params'',
     ''test_content_letters'', ''test_style_letters'', ''test_style_labels'',
     ''test_images'', ''train_loss'', ''valid_loss'']"

definition has_key :: "('x, 'p, 'i) trainer_data \<Rightarrow> string \<Rightarrow> bool" where
  "has_key d k =
     (if k = ''generator_params'' then d_generator_params d \<noteq> None
      else if k = ''best_loss'' then d_best_loss d \<noteq> None
      else if k = ''best_params'' then d_best_params d \<noteq> None
      else if k = ''test_content_letters'' then d_test_content_letters d \<noteq> None
      else if k = ''test_style_letters'' then d_test_style_letters d \<noteq> None
      else if k = ''test_style_labels'' then d_test_style_labels d \<noteq> None
      else if k = ''test_images'' then d_test_images d \<noteq> None
      else if k = ''train_loss'' then d_train_loss d \<noteq> None
      else if k = ''valid_loss'' then d_valid_loss d \<noteq> None
      else False)"

subsection \<open>The trainer and the world it runs in\<close>

text \<open>
  Tensors live in a store: \<open>heap\<close> maps an address to parameter values. \<open>generator\<close> is
  the address of the generator's own parameters; the optimizer step writes there.
  \<open>state_dict()\<close> returns references to those tensors, not copies, so \<open>best_params\<close> holds
  an address (or \<open>None\<close>). \<open>wandb\<close>, \<open>files\<close> and \<open>trace\<close> are the world outside the
  object: the sink, the file system (a path holds a pickled dictionary or nothing) and
  the executed steps.
\<close>

record ('x, 'p, 'o, 'l, 'w, 'i) trainer =
  heap :: "nat \<Rightarrow> 'p"
  next_addr :: nat
  generator :: nat
  training :: bool
  gen_optim :: 'o
  trainloader :: 'l
  validloader :: 'l
  mse_penalty :: real
  best_loss :: real
  best_params :: "nat option"
  test_content_letters :: 'x
  test_style_letters :: 'x
  test_style_labels :: 'x
  train_loss :: "real list"
  valid_loss :: "real list"
  test_images :: "'i list"
  could_wandb :: bool
  wandb :: 'w
  files :: "string \<Rightarrow> ('x, 'p, 'i) trainer_data option"
  trace :: "'i event list"

text \<open>\<open>Trainer.__init__\<close>: the sentinel \<open>1e5\<close>, no best parameters, empty histories, and
  the fixed batch of 25 drawn from the validation loader.\<close>

definition init ::
  "('x, 'p, 'o, 'l, 'w, 'i) env \<Rightarrow> 'p \<Rightarrow> 'l \<Rightarrow> 'l \<Rightarrow> real \<Rightarrow> real \<Rightarrow> bool \<Rightarrow> 'w \<Rightarrow>
   (string \<Rightarrow> ('x, 'p, 'i) trainer_data option) \<Rightarrow> ('x, 'p, 'o, 'l, 'w, 'i) trainer" where
  "init E params tloader vloader penalty lr cw w fs =
     (case loader_get E (Some 25) vloader of ((c, t, lab), vloader') \<Rightarrow>
        \<lparr> heap = (\<lambda>_. params), next_addr = 1, generator = 0, training = True,
          gen_optim = adam E lr params, trainloader = tloader, validloader = vloader',
          mse_penalty = penalty, best_loss = 100000, best_params = None,
          test_content_letters = to_float32 E c, test_style_letters = to_float32 E t,
          test_style_labels = to_float32 E lab,
          train_loss = [], valid_loss = [], test_images = [], could_wandb = cw,
          wandb = w, files = fs, trace = [] \<rparr>)"

text \<open>\<open>self.generator.state_dict()\<close>: the reference to the generator's tensors.\<close>

definition state_dict :: "('x, 'p, 'o, 'l, 'w, 'i) trainer \<Rightarrow> nat" where
  "state_dict s = generator s"

text \<open>A call to wandb: recorded, and an error when wandb raises (no handler anywhere
  in the class).\<close>

definition sink_emit ::
  "('x, 'p, 'o, 'l, 'w, 'i) env \<Rightarrow> 'i sink_msg \<Rightarrow> ('x, 'p, 'o, 'l, 'w, 'i) trainer \<Rightarrow>
   (py_error \<times> ('x, 'p, 'o, 'l, 'w, 'i) trainer) + ('x, 'p, 'o, 'l, 'w, 'i) trainer" where
  "sink_emit E m s =
     (case wandb_call E (wandb s) m of
        None \<Rightarrow> Inl (SinkError, s\<lparr>trace := trace s @ [Sink m]\<rparr>)
      | Some w \<Rightarrow> Inr (s\<lparr>wandb := w, trace := trace s @ [Sink m]\<rparr>))"

text \<open>\<open>if self.could_wandb: wandb...\<close>\<close>

definition sink_if ::
  "('x, 'p, 'o, 'l, 'w, 'i) env \<Rightarrow> 'i sink_msg \<Rightarrow> ('x, 'p, 'o, 'l, 'w, 'i) trainer \<Rightarrow>
   (py_error \<times> ('x, 'p, 'o, 'l, 'w, 'i) trainer) + ('x, 'p, 'o, 'l, 'w, 'i) trainer" where
  "sink_if E m s = (if could_wandb s then sink_emit E m s else Inr s)"

text \<open>Lines 86 to 90 and 122 to 126: the penalised loss of one converted batch.\<close>

definition batch_loss ::
  "('x, 'p, 'o, 'l, 'w, 'i) env \<Rightarrow> bool \<Rightarrow> 'p \<Rightarrow> real \<Rightarrow> 'x \<times> 'x \<times> 'x \<Rightarrow> real" where
  "batch_loss E mode p penalty b =
     (case b of (content_letters, style_letters, style_labels) \<Rightarrow>
        penalty * mse_criterion E (generator_call E mode p content_letters style_labels)
                    style_letters)"

definition convert ::
  "('x, 'p, 'o, 'l, 'w, 'i) env \<Rightarrow> 'x \<times> 'x \<times> 'x \<Rightarrow> 'x \<times> 'x \<times> 'x" where
  "convert E b = (case b of (c, t, lab) \<Rightarrow> (to_float32 E c, to_float32 E t, to_float32 E lab))"

text \<open>The loss the next training batch will produce (lines 81 to 90).\<close>

definition next_train_loss ::
  "('x, 'p, 'o, 'l, 'w, 'i) env \<Rightarrow> ('x, 'p, 'o, 'l, 'w, 'i) trainer \<Rightarrow> real" where
  "next_train_loss E s =
     batch_loss E (training s) (heap s (generator s)) (mse_penalty s)
       (convert E (fst (loader_get E None (trainloader s))))"

definition next_valid_loss ::
  "('x, 'p, 'o, 'l, 'w, 'i) env \<Rightarrow> ('x, 'p, 'o, 'l, 'w, 'i) trainer \<Rightarrow> real" where
  "next_valid_loss E s =
     batch_loss E (training s) (heap s (generator s)) (mse_penalty s)
       (convert E (fst (loader_get E None (validloader s))))"

text \<open>The body of the loop of \<open>train\<close> (lines 81 to 101), with the running sum.\<close>

definition train_batch ::
  "('x, 'p, 'o, 'l, 'w, 'i) env \<Rightarrow> real \<Rightarrow> ('x, 'p, 'o, 'l, 'w, 'i) trainer \<Rightarrow>
   (py_error \<times> ('x, 'p, 'o, 'l, 'w, 'i) trainer) + (real \<times> ('x, 'p, 'o, 'l, 'w, 'i) trainer)" where
  "train_batch E avg_loss s =
     (let b = convert E (fst (loader_get E None (trainloader s)));
          p = heap s (generator s);
          loss = batch_loss E (training s) p (mse_penalty s) b;
          o1 = optim_zero_grad E (gen_optim s);
          o2 = loss_backward E o1 (training s) p b (mse_penalty s);
          s1 = s\<lparr>trainloader := snd (loader_get E None (trainloader s)),
                 gen_optim := fst (optim_step E o2 p),
                 heap := (heap s)(generator s := snd (optim_step E o2 p)),
                 trace := trace s @ [Get_train, Zero_grad, Backward, Optim_step]\<rparr>
      in case sink_if E (Log_train_loss loss) s1 of
           Inl err \<Rightarrow> Inl err
         | Inr s2 \<Rightarrow> Inr (avg_loss + loss, s2\<lparr>train_loss := train_loss s2 @ [loss]\<rparr>))"

text \<open>\<open>for _ in range(n)\<close>\<close>

primrec train_loop ::
  "('x, 'p, 'o, 'l, 'w, 'i) env \<Rightarrow> nat \<Rightarrow> real \<Rightarrow> ('x, 'p, 'o, 'l, 'w, 'i) trainer \<Rightarrow>
   (py_error \<times> ('x, 'p, 'o, 'l, 'w, 'i) trainer) + (real \<times> ('x, 'p, 'o, 'l, 'w, 'i) trainer)" where
  "train_loop E 0 avg_loss s = Inr (avg_loss, s)"
| "train_loop E (Suc n) avg_loss s =
     (case train_batch E avg_loss s of
        Inl err \<Rightarrow> Inl err
      | Inr (a, s') \<Rightarrow> train_loop E n a s')"

text \<open>\<open>Trainer.train\<close>. The count is read again for the division, which raises at 0.\<close>

definition train ::
  "('x, 'p, 'o, 'l, 'w, 'i) env \<Rightarrow> ('x, 'p, 'o, 'l, 'w, 'i) trainer \<Rightarrow>
   (py_error \<times> ('x, 'p, 'o, 'l, 'w, 'i) trainer) + (real \<times> ('x, 'p, 'o, 'l, 'w, 'i) trainer)" where
  "train E s =
     (case train_loop E (loader_len E (trainloader s)) 0 (s\<lparr>training := True\<rparr>) of
        Inl err \<Rightarrow> Inl err
      | Inr (avg_loss, s') \<Rightarrow>
          if loader_len E (trainloader s') = 0 then Inl (ZeroDivisionError, s')
          else Inr (avg_loss / real (loader_len E (trainloader s')), s'))"

text \<open>The body of the loop of \<open>valid\<close> (lines 117 to 133): no optimizer call.\<close>

definition valid_batch ::
  "('x, 'p, 'o, 'l, 'w, 'i) env \<Rightarrow> real \<Rightarrow> ('x, 'p, 'o, 'l, 'w, 'i) trainer \<Rightarrow>
   (py_error \<times> ('x, 'p, 'o, 'l, 'w, 'i) trainer) + (real \<times> ('x, 'p, 'o, 'l, 'w, 'i) trainer)" where
  "valid_batch E avg_loss s =
     (let b = convert E (fst (loader_get E None (validloader s)));
          loss = batch_loss E (training s) (heap s (generator s)) (mse_penalty s) b;
          s1 = s\<lparr>validloader := snd (loader_get E None (validloader s)),
                 trace := trace s @ [Get_valid]\<rparr>
      in case sink_if E (Log_valid_loss loss) s1 of
           Inl err \<Rightarrow> Inl err
         | Inr s2 \<Rightarrow> Inr (avg_loss + loss, s2\<lparr>valid_loss := valid_loss s2 @ [loss]\<rparr>))"

primrec valid_loop ::
  "('x, 'p, 'o, 'l, 'w, 'i) env \<Rightarrow> nat \<Rightarrow> real \<Rightarrow> ('x, 'p, 'o, 'l, 'w, 'i) trainer \<Rightarrow>
   (py_error \<times> ('x, 'p, 'o, 'l, 'w, 'i) trainer) + (real \<times> ('x, 'p, 'o, 'l, 'w, 'i) trainer)" where
  "valid_loop E 0 avg_loss s = Inr (avg_loss, s)"
| "valid_loop E (Suc n) avg_loss s =
     (case valid_batch E avg_loss s of
        Inl err \<Rightarrow> Inl err
      | Inr (a, s') \<Rightarrow> valid_loop E n a s')"

text \<open>Lines 137 to 139: the best-model policy.\<close>

definition best_policy ::
  "real \<Rightarrow> ('x, 'p, 'o, 'l, 'w, 'i) trainer \<Rightarrow> ('x, 'p, 'o, 'l, 'w, 'i) trainer" where
  "best_policy avg_loss s =
     (if avg_loss \<le> best_loss s
      then s\<lparr>best_loss := avg_loss, best_params := Some (state_dict s)\<rparr>
      else s)"

text \<open>\<open>Trainer.valid\<close>\<close>

definition valid ::
  "('x, 'p, 'o, 'l, 'w, 'i) env \<Rightarrow> ('x, 'p, 'o, 'l, 'w, 'i) trainer \<Rightarrow>
   (py_error \<times> ('x, 'p, 'o, 'l, 'w, 'i) trainer) + (real \<times> ('x, 'p, 'o, 'l, 'w, 'i) trainer)" where
  "valid E s =
     (case valid_loop E (loader_len E (validloader s)) 0 (s\<lparr>training := False\<rparr>) of
        Inl err \<Rightarrow> Inl err
      | Inr (avg_loss, s') \<Rightarrow>
          if loader_len E (validloader s') = 0 then Inl (ZeroDivisionError, s')
          else Inr (avg_loss / real (loader_len E (validloader s')),
                    best_policy (avg_loss / real (loader_len E (validloader s'))) s'))"

text \<open>\<open>Trainer.get_pred_image\<close>\<close>

definition get_pred_image ::
  "('x, 'p, 'o, 'l, 'w, 'i) env \<Rightarrow> ('x, 'p, 'o, 'l, 'w, 'i) trainer \<Rightarrow>
   'i \<times> ('x, 'p, 'o, 'l, 'w, 'i) trainer" where
  "get_pred_image E s =
     (make_image E (generator_call E False (heap s (generator s))
                      (test_content_letters s) (test_style_labels s)),
      s\<lparr>training := False, trace := trace s @ [Render]\<rparr>)"

text \<open>Lines 190 to 200: the dictionary, with the values the references hold now.\<close>

definition make_trainer_data ::
  "('x, 'p, 'o, 'l, 'w, 'i) trainer \<Rightarrow> ('x, 'p, 'i) trainer_data" where
  "make_trainer_data s =
     \<lparr> d_generator_params = Some (heap s (state_dict s)),
       d_best_loss = Some (best_loss s),
       d_best_params = Some (map_option (heap s) (best_params s)),
       d_test_content_letters = Some (test_content_letters s),
       d_test_style_letters = Some (test_style_letters s),
       d_test_style_labels = Some (test_style_labels s),
       d_test_images = Some (test_images s),
       d_train_loss = Some (train_loss s),
       d_valid_loss = Some (valid_loss s) \<rparr>"

text \<open>Lines 202 and 203: the dump, replacing what the path held.\<close>

definition pickle_dump ::
  "string \<Rightarrow> ('x, 'p, 'o, 'l, 'w, 'i) trainer \<Rightarrow> ('x, 'p, 'o, 'l, 'w, 'i) trainer" where
  "pickle_dump trainer_path s =
     s\<lparr>files := (files s)(trainer_path := Some (make_trainer_data s)),
       trace := trace s @ [Pickle_dump trainer_path]\<rparr>"

text \<open>The body of the loop of \<open>run\<close> (lines 175 to 206).\<close>

definition run_epoch ::
  "('x, 'p, 'o, 'l, 'w, 'i) env \<Rightarrow> int \<Rightarrow> string \<Rightarrow> int \<Rightarrow> ('x, 'p, 'o, 'l, 'w, 'i) trainer \<Rightarrow>
   (py_error \<times> ('x, 'p, 'o, 'l, 'w, 'i) trainer) + ('x, 'p, 'o, 'l, 'w, 'i) trainer" where
  "run_epoch E stop trainer_path epoch s =
     (case train E (s\<lparr>trace := trace s @ [Print_epoch (epoch + 1) stop, Print_label ''TRAIN'']\<rparr>) of
        Inl err \<Rightarrow> Inl err
      | Inr (tr_loss, s1) \<Rightarrow>
         (case valid E (s1\<lparr>trace := trace s1 @ [Print_train_loss tr_loss, Print_label ''VALID'']\<rparr>) of
            Inl err \<Rightarrow> Inl err
          | Inr (va_loss, s2) \<Rightarrow>
             (case get_pred_image E (s2\<lparr>trace := trace s2 @ [Print_valid_loss va_loss]\<rparr>) of
                (pred_image, s3) \<Rightarrow>
                 (case sink_if E (Log_pred_image pred_image) s3 of
                    Inl err \<Rightarrow> Inl err
                  | Inr s4 \<Rightarrow>
                      (let s5 = s4\<lparr>test_images := test_images s4 @ [pred_image],
                                    trace := trace s4 @ [Append_image]\<rparr>;
                           s6 = pickle_dump trainer_path s5
                       in sink_if E (Config_best_loss (best_loss s6)) s6)))))"

primrec run_epochs ::
  "('x, 'p, 'o, 'l, 'w, 'i) env \<Rightarrow> int \<Rightarrow> string \<Rightarrow> int list \<Rightarrow> ('x, 'p, 'o, 'l, 'w, 'i) trainer \<Rightarrow>
   (py_error \<times> ('x, 'p, 'o, 'l, 'w, 'i) trainer) + ('x, 'p, 'o, 'l, 'w, 'i) trainer" where
  "run_epochs E stop trainer_path [] s = Inr s"
| "run_epochs E stop trainer_path (epoch # es) s =
     (case run_epoch E stop trainer_path epoch s of
        Inl err \<Rightarrow> Inl err
      | Inr s' \<Rightarrow> run_epochs E stop trainer_path es s')"

text \<open>\<open>Trainer.run\<close>, for a pair \<open>epochs = (start, stop)\<close>: \<open>range(start, stop)\<close>.\<close>

definition run ::
  "('x, 'p, 'o, 'l, 'w, 'i) env \<Rightarrow> int \<times> int \<Rightarrow> string \<Rightarrow> ('x, 'p, 'o, 'l, 'w, 'i) trainer \<Rightarrow>
   (py_error \<times> ('x, 'p, 'o, 'l, 'w, 'i) trainer) + ('x, 'p, 'o, 'l, 'w, 'i) trainer" where
  "run E epochs trainer_path s =
     run_epochs E (snd epochs) trainer_path [fst epochs..snd epochs - 1] s"

text \<open>The replay loops of \<open>load_trainer\<close> (lines 161 to 168): one wandb call per entry.\<close>

primrec sink_all ::
  "('x, 'p, 'o, 'l, 'w, 'i) env \<Rightarrow> 'i sink_msg list \<Rightarrow> ('x, 'p, 'o, 'l, 'w, 'i) trainer \<Rightarrow>
   (py_error \<times> ('x, 'p, 'o, 'l, 'w, 'i) trainer) + ('x, 'p, 'o, 'l, 'w, 'i) trainer" where
  "sink_all E [] s = Inr s"
| "sink_all E (m # ms) s =
     (case sink_emit E m s of
        Inl err \<Rightarrow> Inl err
      | Inr s' \<Rightarrow> sink_all E ms s')"

text \<open>Line 150: the unpickled value is a new object, at a new address, unless it is
  \<open>None\<close>.\<close>

definition set_best_params ::
  "'p option \<Rightarrow> ('x, 'p, 'o, 'l, 'w, 'i) trainer \<Rightarrow> ('x, 'p, 'o, 'l, 'w, 'i) trainer" where
  "set_best_params v s =
     (case v of
        None \<Rightarrow> s\<lparr>best_params := None\<rparr>
      | Some p \<Rightarrow> s\<lparr>heap := (heap s)(next_addr s := p), next_addr := Suc (next_addr s),
                     best_params := Some (next_addr s)\<rparr>)"

text \<open>
  \<open>Trainer.load_trainer\<close>. The keys are read in the order of the source, each
  assignment made before the next read, so a missing key raises \<open>KeyError\<close> with the
  earlier fields already overwritten. \<open>load_state_dict\<close> copies the stored values into
  the generator's own tensors.
\<close>

definition load_trainer ::
  "('x, 'p, 'o, 'l, 'w, 'i) env \<Rightarrow> string \<Rightarrow> bool \<Rightarrow> ('x, 'p, 'o, 'l, 'w, 'i) trainer \<Rightarrow>
   (py_error \<times> ('x, 'p, 'o, 'l, 'w, 'i) trainer) + ('x, 'p, 'o, 'l, 'w, 'i) trainer" where
  "load_trainer E path wandb_log s =
    (case files s path of
       None \<Rightarrow> Inl (FileNotFoundError path, s)
     | Some d \<Rightarrow>
    (case d_generator_params d of
       None \<Rightarrow> Inl (KeyError ''generator_params'', s)
     | Some gp \<Rightarrow> let s1 = s\<lparr>heap := (heap s)(generator s := gp)\<rparr> in
    (case d_best_loss d of
       None \<Rightarrow> Inl (KeyError ''best_loss'', s1)
     | Some bl \<Rightarrow> let s2 = s1\<lparr>best_loss := bl\<rparr> in
    (case d_best_params d of
       None \<Rightarrow> Inl (KeyError ''best_params'', s2)
     | Some bp \<Rightarrow> let s3 = set_best_params bp s2 in
    (case d_test_content_letters d of
       None \<Rightarrow> Inl (KeyError ''test_content_letters'', s3)
     | Some c \<Rightarrow> let s4 = s3\<lparr>test_content_letters := c\<rparr> in
    (case d_test_style_letters d of
       None \<Rightarrow> Inl (KeyError ''test_style_letters'', s4)
     | Some t \<Rightarrow> let s5 = s4\<lparr>test_style_letters := t\<rparr> in
    (case d_test_style_labels d of
       None \<Rightarrow> Inl (KeyError ''test_style_labels'', s5)
     | Some lab \<Rightarrow> let s6 = s5\<lparr>test_style_labels := lab\<rparr> in
    (case d_test_images d of
       None \<Rightarrow> Inl (KeyError ''test_images'', s6)
     | Some imgs \<Rightarrow> let s7 = s6\<lparr>test_images := imgs\<rparr> in
    (case d_train_loss d of
       None \<Rightarrow> Inl (KeyError ''train_loss'', s7)
     | Some trl \<Rightarrow> let s8 = s7\<lparr>train_loss := trl\<rparr> in
    (case d_valid_loss d of
       None \<Rightarrow> Inl (KeyError ''valid_loss'', s8)
     | Some val \<Rightarrow> let s9 = s8\<lparr>valid_loss := val\<rparr> in
       if wandb_log \<and> could_wandb s9
       then sink_all E (Config_best_loss (best_loss s9) # map Log_train_loss (train_loss s9)
                          @ map Log_valid_loss (valid_loss s9)
                          @ map Log_pred_image (test_images s9)) s9
       else Inr s9))))))))))"

subsection \<open>Reading results and traces\<close>

definition final ::
  "(py_error \<times> ('x, 'p, 'o, 'l, 'w, 'i) trainer) + ('x, 'p, 'o, 'l, 'w, 'i) trainer \<Rightarrow>
   ('x, 'p, 'o, 'l, 'w, 'i) trainer" where
  "final r = (case r of Inl (err, s) \<Rightarrow> s | Inr s \<Rightarrow> s)"

definition final_of ::
  "(py_error \<times> ('x, 'p, 'o, 'l, 'w, 'i) trainer) + (real \<times> ('x, 'p, 'o, 'l, 'w, 'i) trainer) \<Rightarrow>
   ('x, 'p, 'o, 'l, 'w, 'i) trainer" where
  "final_of r = (case r of Inl (err, s) \<Rightarrow> s | Inr (a, s) \<Rightarrow> s)"

text \<open>The validation means a run has printed, in order.\<close>

fun valid_means :: "'i event list \<Rightarrow> real list" where
  "valid_means [] = []"
| "valid_means (Print_valid_loss m # tr) = m # valid_means tr"
| "valid_means (e # tr) = valid_means tr"

text \<open>The steps of an epoch that touch the run state: batches read, the sample
  rendered and appended, the dump. wandb calls and prints are left out.\<close>

fun core_steps :: "'i event list \<Rightarrow> 'i event list" where
  "core_steps [] = []"
| "core_steps (Get_train # tr) = Get_train # core_steps tr"
| "core_steps (Get_valid # tr) = Get_valid # core_steps tr"
| "core_steps (Render # tr) = Render # core_steps tr"
| "core_steps (Append_image # tr) = Append_image # core_steps tr"
| "core_steps (Pickle_dump p # tr) = Pickle_dump p # core_steps tr"
| "core_steps (e # tr) = core_steps tr"

text \<open>The optimizer calls in a trace.\<close>

fun optim_calls :: "'i event list \<Rightarrow> 'i event list" where
  "optim_calls [] = []"
| "optim_calls (Zero_grad # tr) = Zero_grad # optim_calls tr"
| "optim_calls (Backward # tr) = Backward # optim_calls tr"
| "optim_calls (Optim_step # tr) = Optim_step # optim_calls tr"
| "optim_calls (e # tr) = optim_calls tr"

text \<open>A loader whose count does not change when a batch is read.\<close>

definition fixed_count :: "('x, 'p, 'o, 'l, 'w, 'i) env \<Rightarrow> bool" where
  "fixed_count E = (\<forall>l. loader_len E (snd (loader_get E None l)) = loader_len E l)"

subsection \<open>A small concrete instance\<close>

text \<open>
  Tensors are lists of reals, \<open>mse\<close> is the mean of the squared differences, the
  generator scales its content input by one weight, each optimizer step adds one to that
  weight, and a loader cycles through a list of target tensors and reports its length.
  The flag says whether calls to wandb succeed.
\<close>

definition mse :: "real list \<Rightarrow> real list \<Rightarrow> real" where
  "mse xs ys = sum_list (map (\<lambda>(x, y). (x - y) ^ 2) (zip xs ys)) / real (length xs)"

definition demo_get ::
  "real list list \<Rightarrow> (real list \<times> real list \<times> real list) \<times> real list list" where
  "demo_get l = (case l of [] \<Rightarrow> (([], [], []), []) | t # ts \<Rightarrow> (([0, 0], t, [0, 0]), ts @ [t]))"

definition demo_env ::
  "bool \<Rightarrow> (real list, real, nat, real list list, nat, real list) env" where
  "demo_env sink_ok =
     \<lparr> generator_call = (\<lambda>mode p c lab. map (\<lambda>x. p * x) c),
       mse_criterion = mse,
       to_float32 = (\<lambda>x. x),
       loader_len = length,
       loader_get = (\<lambda>n l. demo_get l),
       adam = (\<lambda>lr p. 0),
       optim_zero_grad = (\<lambda>opt. opt),
       loss_backward = (\<lambda>opt mode p b penalty. opt),
       optim_step = (\<lambda>opt p. (Suc opt, p + 1)),
       make_image = (\<lambda>x. x),
       wandb_call = (\<lambda>w m. if sink_ok then Some (Suc w) else None) \<rparr>"

definition demo_trainer ::
  "bool \<Rightarrow> bool \<Rightarrow> real list list \<Rightarrow> real list list \<Rightarrow> real \<Rightarrow>
   (real list, real, nat, real list list, nat, real list) trainer" where
  "demo_trainer sink_ok cw tloader vloader penalty =
     init (demo_env sink_ok) 1 tloader vloader penalty 0.002 cw 0 (\<lambda>_. None)"


section \<open>What each operation changes\<close>

lemma core_steps_append: "core_steps (xs @ ys) = core_steps xs @ core_steps ys"
  by (induction xs rule: core_steps.induct) simp_all

lemma optim_calls_append: "optim_calls (xs @ ys) = optim_calls xs @ optim_calls ys"
  by (induction xs rule: optim_calls.induct) simp_all

lemma valid_means_append: "valid_means (xs @ ys) = valid_means xs @ valid_means ys"
  by (induction xs rule: valid_means.induct) simp_all

lemma sink_if_Inr:
  "sink_if E m s = Inr s' \<Longrightarrow>
     train_loss s' = train_loss s \<and> valid_loss s' = valid_loss s \<and>
     best_loss s' = best_loss s \<and> best_params s' = best_params s \<and>
     could_wandb s' = could_wandb s \<and> trainloader s' = trainloader s \<and>
     validloader s' = validloader s \<and> test_images s' = test_images s \<and>
     generator s' = generator s \<and> files s' = files s \<and> training s' = training s \<and>
     mse_penalty s' = mse_penalty s \<and> heap s' = heap s \<and>
     core_steps (trace s') = core_steps (trace s) \<and>
     optim_calls (trace s') = optim_calls (trace s) \<and>
     valid_means (trace s') = valid_means (trace s)"
  by (auto simp: sink_if_def sink_emit_def core_steps_append optim_calls_append
        valid_means_append split: if_splits option.splits)

lemma sink_if_Inl:
  "sink_if E m s = Inl (e, s') \<Longrightarrow>
     e = SinkError \<and> could_wandb s \<and> wandb_call E (wandb s) m = None \<and>
     train_loss s' = train_loss s \<and> valid_loss s' = valid_loss s \<and>
     best_loss s' = best_loss s \<and> best_params s' = best_params s \<and>
     test_images s' = test_images s \<and> files s' = files s"
  by (auto simp: sink_if_def sink_emit_def split: if_splits option.splits)

lemma train_batch_Inr:
  "train_batch E a s = Inr (a', s') \<Longrightarrow>
     a' = a + next_train_loss E s \<and>
     train_loss s' = train_loss s @ [next_train_loss E s] \<and> valid_loss s' = valid_loss s \<and>
     best_loss s' = best_loss s \<and> best_params s' = best_params s \<and>
     could_wandb s' = could_wandb s \<and>
     trainloader s' = snd (loader_get E None (trainloader s)) \<and>
     validloader s' = validloader s \<and> test_images s' = test_images s \<and>
     generator s' = generator s \<and> files s' = files s \<and> training s' = training s \<and>
     mse_penalty s' = mse_penalty s \<and>
     core_steps (trace s') = core_steps (trace s) @ [Get_train] \<and>
     optim_calls (trace s') = optim_calls (trace s) @ [Zero_grad, Backward, Optim_step] \<and>
     valid_means (trace s') = valid_means (trace s)"
  unfolding train_batch_def Let_def next_train_loss_def
  by (auto split: sum.splits dest!: sink_if_Inr
        simp: core_steps_append optim_calls_append valid_means_append)

lemma valid_batch_Inr:
  "valid_batch E a s = Inr (a', s') \<Longrightarrow>
     a' = a + next_valid_loss E s \<and>
     valid_loss s' = valid_loss s @ [next_valid_loss E s] \<and> train_loss s' = train_loss s \<and>
     best_loss s' = best_loss s \<and> best_params s' = best_params s \<and>
     could_wandb s' = could_wandb s \<and>
     validloader s' = snd (loader_get E None (validloader s)) \<and>
     trainloader s' = trainloader s \<and> test_images s' = test_images s \<and>
     generator s' = generator s \<and> files s' = files s \<and> training s' = training s \<and>
     mse_penalty s' = mse_penalty s \<and> heap s' = heap s \<and>
     core_steps (trace s') = core_steps (trace s) @ [Get_valid] \<and>
     optim_calls (trace s') = optim_calls (trace s) \<and>
     valid_means (trace s') = valid_means (trace s)"
  unfolding valid_batch_def Let_def next_valid_loss_def
  by (auto split: sum.splits dest!: sink_if_Inr
        simp: core_steps_append optim_calls_append valid_means_append)

lemma train_batch_Inl:
  "train_batch E a s = Inl (e, s') \<Longrightarrow>
     e = SinkError \<and> could_wandb s \<and>
     wandb_call E (wandb s) (Log_train_loss (next_train_loss E s)) = None \<and>
     train_loss s' = train_loss s \<and> valid_loss s' = valid_loss s \<and>
     best_loss s' = best_loss s \<and> best_params s' = best_params s \<and>
     test_images s' = test_images s \<and> files s' = files s"
  unfolding train_batch_def Let_def next_train_loss_def
  by (auto split: sum.splits dest!: sink_if_Inl)

lemma valid_batch_Inl:
  "valid_batch E a s = Inl (e, s') \<Longrightarrow>
     e = SinkError \<and> could_wandb s \<and>
     wandb_call E (wandb s) (Log_valid_loss (next_valid_loss E s)) = None \<and>
     train_loss s' = train_loss s \<and> valid_loss s' = valid_loss s \<and>
     best_loss s' = best_loss s \<and> best_params s' = best_params s \<and>
     test_images s' = test_images s \<and> files s' = files s"
  unfolding valid_batch_def Let_def next_valid_loss_def
  by (auto split: sum.splits dest!: sink_if_Inl)

lemma train_loop_Inr:
  "train_loop E n a s = Inr (a', s') \<Longrightarrow>
     train_loss s' = train_loss s @ drop (length (train_loss s)) (train_loss s') \<and>
     length (train_loss s') = length (train_loss s) + n \<and>
     a' = a + sum_list (drop (length (train_loss s)) (train_loss s')) \<and>
     valid_loss s' = valid_loss s \<and>
     best_loss s' = best_loss s \<and> best_params s' = best_params s \<and>
     could_wandb s' = could_wandb s \<and>
     (fixed_count E \<longrightarrow> loader_len E (trainloader s') = loader_len E (trainloader s)) \<and>
     validloader s' = validloader s \<and> test_images s' = test_images s \<and>
     generator s' = generator s \<and> files s' = files s \<and> training s' = training s \<and>
     mse_penalty s' = mse_penalty s \<and>
     core_steps (trace s') = core_steps (trace s) @ replicate n Get_train \<and>
     optim_calls (trace s') =
       optim_calls (trace s) @ concat (replicate n [Zero_grad, Backward, Optim_step]) \<and>
     valid_means (trace s') = valid_means (trace s)"
proof (induction n arbitrary: a s)
  case 0
  then show ?case by simp
next
  case (Suc n)
  from Suc.prems obtain b t where
    step: "train_batch E a s = Inr (b, t)" and rest: "train_loop E n b t = Inr (a', s')"
    by (auto split: sum.splits)
  note B = train_batch_Inr [OF step]
  note R = Suc.IH [OF rest]
  have len: "length (train_loss s') = length (train_loss s) + Suc n"
    using B R by simp
  have app: "train_loss s' = train_loss s @ next_train_loss E s
               # drop (length (train_loss t)) (train_loss s')"
    using B R by (metis append.assoc append_Cons append_Nil)
  then have dr: "drop (length (train_loss s)) (train_loss s') =
      next_train_loss E s # drop (length (train_loss t)) (train_loss s')"
    by (metis append_eq_conv_conj)
  have cnt: "fixed_count E \<longrightarrow> loader_len E (trainloader s') = loader_len E (trainloader s)"
    using B R by (simp add: fixed_count_def)
  show ?case
    using B R len dr cnt
    by (simp add: replicate_append_same)
qed

text \<open>
  Claim C10. When the loader reports a batch count of zero, \<open>train\<close> and \<open>valid\<close> do
  not return a value: the loop body never runs and the division by the count raises
  \<open>ZeroDivisionError\<close>. A positive count is a precondition of both.
\<close>

theorem zero_batch_count_raises:
  "(loader_len E (trainloader s) = 0 \<longrightarrow>
      train E s = Inl (ZeroDivisionError, s\<lparr>training := True\<rparr>)) \<and>
   (loader_len E (validloader s) = 0 \<longrightarrow>
      valid E s = Inl (ZeroDivisionError, s\<lparr>training := False\<rparr>))"
  by (simp add: train_def valid_def)

lemma demo_simps:
  "trainloader (demo_trainer ok cw tl' vl' pen) = tl'"
  "validloader (demo_trainer ok cw tl' vl' pen) = snd (demo_get vl')"
  "loader_len (demo_env ok) = length"
  by (simp_all add: demo_trainer_def init_def demo_env_def split: prod.splits)

theorem zero_batch_count_raises_witness:
  "loader_len (demo_env True) (trainloader (demo_trainer True False [] [] 5)) = 0 \<and>
   loader_len (demo_env True) (validloader (demo_trainer True False [] [] 5)) = 0 \<and>
   train (demo_env True) (demo_trainer True False [] [] 5) =
     Inl (ZeroDivisionError, (demo_trainer True False [] [] 5)\<lparr>training := True\<rparr>) \<and>
   valid (demo_env True) (demo_trainer True False [] [] 5) =
     Inl (ZeroDivisionError, (demo_trainer True False [] [] 5)\<lparr>training := False\<rparr>)"
  using zero_batch_count_raises [of "demo_env True" "demo_trainer True False [] [] 5"]
  by (simp add: demo_simps demo_get_def)

end
